theory Spec2Isabelle
  imports Complex_Main "HOL-Library.Product_Lexorder"
begin

section \<open>Request bodies: JSON values as Python objects\<close>

text \<open>
  The backend (\<^verbatim>\<open>backend/app.py\<close>) reads \<^verbatim>\<open>request.json\<close>, a Python object
  decoded from JSON. A dict is an association list read with \<open>map_of\<close>; Python's
  unbounded \<^verbatim>\<open>int\<close> is \<open>int\<close>. A Python \<^verbatim>\<open>float\<close> is modelled as a real
  number: rounding, overflow and the special values \<^verbatim>\<open>inf\<close> and \<^verbatim>\<open>nan\<close> are
  outside the model.
\<close>

datatype number = PyInt int | PyFloat real

fun as_real :: "number \<Rightarrow> real" where
  "as_real (PyInt n) = of_int n"
| "as_real (PyFloat r) = r"

datatype json =
    JNull
  | JBool bool
  | JNum number
  | JStr string
  | JList "json list"
  | JDict "(string \<times> json) list"

text \<open>The exceptions that the handlers' \<^verbatim>\<open>except Exception\<close> clauses catch.\<close>

datatype exn =
    BadRequest
  | AttributeError
  | TypeError
  | ValueError
  | OverflowError
  | IntegrityError
  | InterfaceError

text \<open>Python's truth value of an object, as used by \<^verbatim>\<open>if not data\<close>.\<close>

fun truthy :: "json \<Rightarrow> bool" where
  "truthy JNull = False"
| "truthy (JBool b) = b"
| "truthy (JNum n) = (as_real n \<noteq> 0)"
| "truthy (JStr s) = (s \<noteq> [])"
| "truthy (JList xs) = (xs \<noteq> [])"
| "truthy (JDict kvs) = (kvs \<noteq> [])"

text \<open>\<^verbatim>\<open>data.get(key, default)\<close>: only a dict has the method.\<close>

definition dict_get :: "(string \<times> json) list \<Rightarrow> string \<Rightarrow> json \<Rightarrow> json" where
  "dict_get kvs k d = (case map_of kvs k of None \<Rightarrow> d | Some v \<Rightarrow> v)"

fun py_get :: "json \<Rightarrow> string \<Rightarrow> json \<Rightarrow> exn + json" where
  "py_get (JDict kvs) k d = Inr (dict_get kvs k d)"
| "py_get _ k d = Inl AttributeError"

text \<open>Sequencing of steps that may raise: the first exception is the result.\<close>

fun try_bind :: "exn + 'a \<Rightarrow> ('a \<Rightarrow> exn + 'b) \<Rightarrow> exn + 'b" where
  "try_bind (Inl e) f = Inl e"
| "try_bind (Inr x) f = f x"

subsection \<open>Decimal digits\<close>

definition is_digit :: "char \<Rightarrow> bool" where
  "is_digit c = (48 \<le> (of_char c :: nat) \<and> (of_char c :: nat) \<le> 57)"

definition digit_val :: "char \<Rightarrow> nat" where
  "digit_val c = of_char c - 48"

definition digits_val :: "string \<Rightarrow> nat option" where
  "digits_val s =
     (if s \<noteq> [] \<and> list_all is_digit s
      then Some (foldl (\<lambda>a c. 10 * a + digit_val c) 0 s) else None)"

definition is_space :: "char \<Rightarrow> bool" where
  "is_space c = ((of_char c :: nat) = 32 \<or> (9 \<le> (of_char c :: nat) \<and> (of_char c :: nat) \<le> 13))"

definition strip :: "string \<Rightarrow> string" where
  "strip s = rev (dropWhile is_space (rev (dropWhile is_space s)))"

subsection \<open>\<^verbatim>\<open>float(x)\<close> and \<^verbatim>\<open>int(x)\<close>\<close>

text \<open>
  A string argument is read as a decimal literal: surrounding whitespace, an optional
  sign, and for \<^verbatim>\<open>float\<close> an optional fraction and exponent. Python's further
  literals (digit-group underscores, \<^verbatim>\<open>inf\<close>, \<^verbatim>\<open>nan\<close>, non-ASCII digits) are not
  covered: here they are a \<^verbatim>\<open>ValueError\<close>.
\<close>

definition signed :: "string \<Rightarrow> bool \<times> string" where
  "signed s =
     (case s of
        [] \<Rightarrow> (False, [])
      | c # cs \<Rightarrow> if c = CHR ''-'' then (True, cs) else if c = CHR ''+'' then (False, cs) else (False, s))"

definition int_of_str :: "string \<Rightarrow> int option" where
  "int_of_str s =
     (let (neg, ds) = signed (strip s) in
      case digits_val ds of
        None \<Rightarrow> None
      | Some n \<Rightarrow> Some (if neg then - int n else int n))"

definition is_exp_char :: "char \<Rightarrow> bool" where
  "is_exp_char c = (c = CHR ''e'' \<or> c = CHR ''E'')"

definition mantissa_of_str :: "string \<Rightarrow> real option" where
  "mantissa_of_str s =
     (let ip = takeWhile (\<lambda>c. c \<noteq> CHR ''.'') s;
          rest = dropWhile (\<lambda>c. c \<noteq> CHR ''.'') s
      in if rest = [] then map_option real (digits_val ip)
         else let fp = tl rest in
           if ip = [] \<and> fp = [] then None
           else if (ip = [] \<or> list_all is_digit ip) \<and> (fp = [] \<or> list_all is_digit fp)
           then Some (real (foldl (\<lambda>a c. 10 * a + digit_val c) 0 (ip @ fp)) / 10 ^ length fp)
           else None)"

definition exponent_of_str :: "string \<Rightarrow> int option" where
  "exponent_of_str s =
     (let (neg, ds) = signed s in
      case digits_val ds of
        None \<Rightarrow> None
      | Some n \<Rightarrow> Some (if neg then - int n else int n))"

definition float_of_str :: "string \<Rightarrow> real option" where
  "float_of_str s =
     (let (neg, body) = signed (strip s);
          ms = takeWhile (\<lambda>c. \<not> is_exp_char c) body;
          rest = dropWhile (\<lambda>c. \<not> is_exp_char c) body
      in case mantissa_of_str ms of
           None \<Rightarrow> None
         | Some m \<Rightarrow>
            (case (if rest = [] then Some 0 else exponent_of_str (tl rest)) of
               None \<Rightarrow> None
             | Some e \<Rightarrow>
                 Some ((if neg then - m else m) * (if 0 \<le> e then 10 ^ nat e else 1 / 10 ^ nat (- e)))))"

fun py_float :: "json \<Rightarrow> exn + real" where
  "py_float (JNum n) = Inr (as_real n)"
| "py_float (JBool b) = Inr (if b then 1 else 0)"
| "py_float (JStr s) = (case float_of_str s of None \<Rightarrow> Inl ValueError | Some r \<Rightarrow> Inr r)"
| "py_float _ = Inl TypeError"

text \<open>\<^verbatim>\<open>int\<close> of a float truncates towards zero.\<close>

fun py_int :: "json \<Rightarrow> exn + int" where
  "py_int (JNum (PyInt n)) = Inr n"
| "py_int (JNum (PyFloat r)) = Inr (if 0 \<le> r then \<lfloor>r\<rfloor> else \<lceil>r\<rceil>)"
| "py_int (JBool b) = Inr (if b then 1 else 0)"
| "py_int (JStr s) = (case int_of_str s of None \<Rightarrow> Inl ValueError | Some n \<Rightarrow> Inr n)"
| "py_int _ = Inl TypeError"

section \<open>Timestamps\<close>

text \<open>
  The fields of a \<^verbatim>\<open>datetime\<close>. The \<^verbatim>\<open>DateTime\<close> column of the SQLite table keeps
  these fields and no UTC offset, so a stored timestamp is a \<open>datetime\<close> of this type;
  the parser returns the fields together with the offset it read (in microseconds),
  \<open>None\<close> for a string without one.
\<close>

record datetime =
  year :: nat
  month :: nat
  day :: nat
  hour :: nat
  minute :: nat
  second :: nat
  microsecond :: nat

text \<open>\<^verbatim>\<open>s.replace(old, new)\<close> for a one-character \<^verbatim>\<open>old\<close>: every occurrence is replaced.\<close>

fun replace :: "string \<Rightarrow> char \<Rightarrow> string \<Rightarrow> string" where
  "replace [] old new = []"
| "replace (c # cs) old new = (if c = old then new @ replace cs old new else c # replace cs old new)"

text \<open>\<^verbatim>\<open>s.find(c)\<close>: the first index of \<^verbatim>\<open>c\<close>, or \<open>-1\<close>.\<close>

fun find :: "string \<Rightarrow> char \<Rightarrow> int" where
  "find [] c = - 1"
| "find (x # xs) c = (if x = c then 0 else (let i = find xs c in if i < 0 then - 1 else i + 1))"

subsection \<open>\<^verbatim>\<open>datetime.fromisoformat\<close>\<close>

text \<open>
  The standard library's parser, for the format it documents since Python 3.7,
  \<^verbatim>\<open>YYYY-MM-DD[*HH[:MM[:SS[.fff[fff]]]][+HH:MM[:SS[.ffffff]]]]\<close>, where \<^verbatim>\<open>*\<close> is any one
  character; the definitions follow the functions of \<^verbatim>\<open>Lib/datetime.py\<close> of those
  versions, with digit groups read as ASCII digits. Later Python versions accept further
  ISO-8601 forms, which are rejected here. \<open>None\<close> stands for \<^verbatim>\<open>ValueError\<close>.
\<close>

definition parse_isoformat_date :: "string \<Rightarrow> (nat \<times> nat \<times> nat) option" where
  "parse_isoformat_date dtstr =
     (if length dtstr = 10 \<and> dtstr ! 4 = CHR ''-'' \<and> dtstr ! 7 = CHR ''-''
      then (case (digits_val (take 4 dtstr), digits_val (take 2 (drop 5 dtstr)),
                  digits_val (drop 8 dtstr)) of
              (Some y, Some m, Some d) \<Rightarrow> Some (y, m, d)
            | _ \<Rightarrow> None)
      else None)"

definition two_digits :: "string \<Rightarrow> nat \<Rightarrow> nat option" where
  "two_digits tstr pos = (if pos + 2 \<le> length tstr then digits_val (take 2 (drop pos tstr)) else None)"

text \<open>\<^verbatim>\<open>HH[:MM[:SS[.fff[fff]]]]\<close>, as hours, minutes, seconds and microseconds.\<close>

definition parse_hh_mm_ss_ff :: "string \<Rightarrow> (nat \<times> nat \<times> nat \<times> nat) option" where
  "parse_hh_mm_ss_ff tstr =
     (let n = length tstr in
      if n = 2 then
        (case two_digits tstr 0 of Some h \<Rightarrow> Some (h, 0, 0, 0) | None \<Rightarrow> None)
      else if n = 5 \<and> tstr ! 2 = CHR '':'' then
        (case (two_digits tstr 0, two_digits tstr 3) of
           (Some h, Some m) \<Rightarrow> Some (h, m, 0, 0)
         | _ \<Rightarrow> None)
      else if (n = 8 \<or> n = 12 \<or> n = 15) \<and> tstr ! 2 = CHR '':'' \<and> tstr ! 5 = CHR '':''
              \<and> (8 < n \<longrightarrow> tstr ! 8 = CHR ''.'') then
        (case (two_digits tstr 0, two_digits tstr 3, two_digits tstr 6,
               if n = 8 then Some 0
               else map_option (\<lambda>f. if n = 12 then f * 1000 else f) (digits_val (drop 9 tstr))) of
           (Some h, Some m, Some s, Some us) \<Rightarrow> Some (h, m, s, us)
         | _ \<Rightarrow> None)
      else None)"

text \<open>
  The time part with its offset. The result's last component is the \<^verbatim>\<open>tzinfo\<close>: \<open>None\<close>
  without an offset, otherwise the offset from UTC in microseconds, which must lie
  strictly between minus and plus 24 hours.
\<close>

definition parse_isoformat_time :: "string \<Rightarrow> ((nat \<times> nat \<times> nat \<times> nat) \<times> int option) option" where
  "parse_isoformat_time tstr =
     (if length tstr < 2 then None
      else
        let tz_pos = (if find tstr CHR ''-'' + 1 \<noteq> 0 then find tstr CHR ''-'' + 1
                      else find tstr CHR ''+'' + 1);
            timestr = (if 0 < tz_pos then take (nat (tz_pos - 1)) tstr else tstr)
        in case parse_hh_mm_ss_ff timestr of
             None \<Rightarrow> None
           | Some time_comps \<Rightarrow>
               if 0 < tz_pos then
                 (let tzstr = drop (nat tz_pos) tstr in
                  if length tzstr \<noteq> 5 \<and> length tzstr \<noteq> 8 \<and> length tzstr \<noteq> 15 then None
                  else case parse_hh_mm_ss_ff tzstr of
                         None \<Rightarrow> None
                       | Some (h, m, s, us) \<Rightarrow>
                           if h = 0 \<and> m = 0 \<and> s = 0 \<and> us = 0 then Some (time_comps, Some 0)
                           else
                             let tzsign = (if tstr ! nat (tz_pos - 1) = CHR ''-'' then - 1 else 1);
                                 td = int (((h * 60 + m) * 60 + s) * 1000000 + us)
                             in if td < 86400000000
                                then Some (time_comps, Some (tzsign * td)) else None)
               else Some (time_comps, None))"

definition is_leap :: "nat \<Rightarrow> bool" where
  "is_leap y = (y mod 4 = 0 \<and> (y mod 100 \<noteq> 0 \<or> y mod 400 = 0))"

definition days_in_month :: "nat \<Rightarrow> nat \<Rightarrow> nat" where
  "days_in_month y m =
     (if m = 2 then (if is_leap y then 29 else 28)
      else if m = 4 \<or> m = 6 \<or> m = 9 \<or> m = 11 then 30 else 31)"

text \<open>The range checks of the \<^verbatim>\<open>datetime\<close> constructor.\<close>

definition new_datetime ::
  "nat \<times> nat \<times> nat \<Rightarrow> nat \<times> nat \<times> nat \<times> nat \<Rightarrow> datetime option" where
  "new_datetime date time =
     (case (date, time) of
        ((y, m, d), (hh, mm, ss, us)) \<Rightarrow>
          if 1 \<le> y \<and> y \<le> 9999 \<and> 1 \<le> m \<and> m \<le> 12 \<and> 1 \<le> d \<and> d \<le> days_in_month y m
             \<and> hh \<le> 23 \<and> mm \<le> 59 \<and> ss \<le> 59 \<and> us \<le> 999999
          then Some \<lparr>year = y, month = m, day = d, hour = hh, minute = mm, second = ss,
                     microsecond = us\<rparr>
          else None)"

definition fromisoformat :: "string \<Rightarrow> (datetime \<times> int option) option" where
  "fromisoformat date_string =
     (case parse_isoformat_date (take 10 date_string) of
        None \<Rightarrow> None
      | Some date \<Rightarrow>
          if length date_string = 10 then
            map_option (\<lambda>dt. (dt, None)) (new_datetime date (0, 0, 0, 0))
          else
            (case parse_isoformat_time (drop 11 date_string) of
               None \<Rightarrow> None
             | Some (time, tzinfo) \<Rightarrow> map_option (\<lambda>dt. (dt, tzinfo)) (new_datetime date time)))"

subsection \<open>\<^verbatim>\<open>datetime.isoformat\<close> of a stored timestamp\<close>

definition digit_char :: "nat \<Rightarrow> char" where
  "digit_char n = ''0123456789'' ! (n mod 10)"

fun show_nat :: "nat \<Rightarrow> string" where
  "show_nat n = (if n < 10 then [digit_char n] else show_nat (n div 10) @ [digit_char n])"

text \<open>\<^verbatim>\<open>"%0wd" % n\<close>\<close>

definition zero_pad :: "nat \<Rightarrow> nat \<Rightarrow> string" where
  "zero_pad w n = replicate (w - length (show_nat n)) CHR ''0'' @ show_nat n"

definition isoformat :: "datetime \<Rightarrow> string" where
  "isoformat dt =
     zero_pad 4 (year dt) @ ''-'' @ zero_pad 2 (month dt) @ ''-'' @ zero_pad 2 (day dt) @ ''T''
     @ zero_pad 2 (hour dt) @ '':'' @ zero_pad 2 (minute dt) @ '':'' @ zero_pad 2 (second dt)
     @ (if microsecond dt \<noteq> 0 then ''.'' @ zero_pad 6 (microsecond dt) else [])"

section \<open>The emission table\<close>

text \<open>
  One row of the model class \<^verbatim>\<open>Emission\<close>. The store is the list of rows in the order
  of their insertion, which is the order \<^verbatim>\<open>Emission.query.all()\<close> lists them in.
\<close>

record emission =
  emission_id :: int
  repo :: string
  owner :: string
  run_id :: string
  co2 :: real
  duration :: int
  machine_type :: string
  badge :: string
  timestamp :: datetime

type_synonym store = "emission list"

text \<open>
  What the table accepts for a column. The model's table is typed as the columns are
  declared: a \<^verbatim>\<open>String\<close> column takes a string, refuses \<^verbatim>\<open>None\<close>
  (\<^verbatim>\<open>nullable=False\<close>) and refuses every other value; the conversions SQLite itself
  would apply to a number bound to a text column are not modelled, and neither is a
  length limit, which SQLite does not enforce. An \<^verbatim>\<open>Integer\<close> column takes a signed
  64-bit value.
\<close>

fun db_String :: "json \<Rightarrow> exn + string" where
  "db_String (JStr s) = Inr s"
| "db_String JNull = Inl IntegrityError"
| "db_String _ = Inl InterfaceError"

definition db_Integer :: "int \<Rightarrow> exn + int" where
  "db_Integer n = (if - (2 ^ 63) \<le> n \<and> n < 2 ^ 63 then Inr n else Inl OverflowError)"

text \<open>The primary key of the next row: one more than the greatest key in the table.\<close>

definition next_id :: "store \<Rightarrow> int" where
  "next_id st = foldl max 0 (map emission_id st) + 1"

section \<open>\<^verbatim>\<open>POST /record\<close>\<close>

text \<open>
  The keyword arguments of \<^verbatim>\<open>Emission(...)\<close>, evaluated in the order they are written.
  The string columns are passed on as they come from the request; \<^verbatim>\<open>co2\<close> goes
  through \<^verbatim>\<open>float\<close>, \<^verbatim>\<open>duration\<close> through \<^verbatim>\<open>int\<close>, and the timestamp through
  \<^verbatim>\<open>.replace('Z', '+00:00')\<close> and \<^verbatim>\<open>datetime.fromisoformat\<close>.
\<close>

definition parse_timestamp :: "json \<Rightarrow> exn + datetime \<times> int option" where
  "parse_timestamp v =
     (case v of
        JStr s \<Rightarrow>
          (case fromisoformat (replace s CHR ''Z'' ''+00:00'') of
             None \<Rightarrow> Inl ValueError
           | Some t \<Rightarrow> Inr t)
      | _ \<Rightarrow> Inl AttributeError)"

type_synonym emission_args =
  "json \<times> json \<times> json \<times> real \<times> int \<times> json \<times> json \<times> (datetime \<times> int option)"

definition new_emission :: "json \<Rightarrow> exn + emission_args" where
  "new_emission data =
     try_bind (py_get data ''repo'' (JStr [])) (\<lambda>repo_v.
     try_bind (py_get data ''owner'' (JStr [])) (\<lambda>owner_v.
     try_bind (py_get data ''run_id'' (JStr [])) (\<lambda>run_id_v.
     try_bind (try_bind (py_get data ''co2'' (JNum (PyInt 0))) py_float) (\<lambda>co2_v.
     try_bind (try_bind (py_get data ''duration'' (JNum (PyInt 0))) py_int) (\<lambda>duration_v.
     try_bind (py_get data ''machine_type'' (JStr [])) (\<lambda>machine_type_v.
     try_bind (py_get data ''badge'' (JStr [])) (\<lambda>badge_v.
     try_bind (try_bind (py_get data ''timestamp'' (JStr [])) parse_timestamp) (\<lambda>timestamp_v.
       Inr (repo_v, owner_v, run_id_v, co2_v, duration_v, machine_type_v, badge_v,
            timestamp_v)))))))))"

text \<open>
  \<^verbatim>\<open>db.session.add(emission); db.session.commit()\<close>: the row is checked against the
  columns and appended with a fresh key, or the commit raises and nothing is written.
\<close>

definition commit :: "store \<Rightarrow> emission_args \<Rightarrow> exn + store \<times> int" where
  "commit st args =
     (case args of
        (repo_v, owner_v, run_id_v, co2_v, duration_v, machine_type_v, badge_v, (dt, tzinfo)) \<Rightarrow>
          try_bind (db_String repo_v) (\<lambda>r.
          try_bind (db_String owner_v) (\<lambda>ow.
          try_bind (db_String run_id_v) (\<lambda>ru.
          try_bind (db_Integer duration_v) (\<lambda>du.
          try_bind (db_String machine_type_v) (\<lambda>mt.
          try_bind (db_String badge_v) (\<lambda>ba.
            Inr (st @ [\<lparr>emission_id = next_id st, repo = r, owner = ow, run_id = ru,
                         co2 = co2_v, duration = du, machine_type = mt, badge = ba,
                         timestamp = dt\<rparr>],
                 next_id st))))))))"

text \<open>
  The three \<^verbatim>\<open>return\<close> statements of the handler: \<^verbatim>\<open>{'error': 'No data provided'}\<close>,
  \<^verbatim>\<open>{'status': 'success', 'id': emission.id}\<close> and \<^verbatim>\<open>{'error': str(e)}\<close>.
\<close>

datatype reply = No_data_provided | Success int | Failed exn

text \<open>
  The handler, on the store and the request body; \<open>None\<close> is a body for which
  \<^verbatim>\<open>request.json\<close> itself raises. The result is the store after the request, the reply
  and the HTTP status. In the \<^verbatim>\<open>except\<close> branch the session is rolled back, so the
  store is the one before the request.
\<close>

definition record_handler :: "store \<Rightarrow> json option \<Rightarrow> store \<times> reply \<times> nat" where
  "record_handler st body =
     (case body of
        None \<Rightarrow> (st, Failed BadRequest, 500)
      | Some data \<Rightarrow>
          if \<not> truthy data then (st, No_data_provided, 400)
          else
            (case try_bind (new_emission data) (commit st) of
               Inr (st', new_id) \<Rightarrow> (st', Success new_id, 201)
             | Inl e \<Rightarrow> (st, Failed e, 500)))"

section \<open>\<^verbatim>\<open>GET /stats\<close>\<close>

text \<open>\<^verbatim>\<open>sum(xs)\<close> of floats: the additions start from the integer \<open>0\<close>, left to right.\<close>

definition py_sum :: "real list \<Rightarrow> number" where
  "py_sum xs = foldl (\<lambda>acc x. PyFloat (as_real acc + x)) (PyInt 0) xs"

definition emission_dict :: "emission \<Rightarrow> json" where
  "emission_dict e =
     JDict [(''repo'', JStr (repo e)),
            (''owner'', JStr (owner e)),
            (''run_id'', JStr (run_id e)),
            (''co2'', JNum (PyFloat (co2 e))),
            (''duration'', JNum (PyInt (duration e))),
            (''machine_type'', JStr (machine_type e)),
            (''badge'', JStr (badge e)),
            (''timestamp'', JStr (isoformat (timestamp e)))]"

text \<open>\<^verbatim>\<open>Emission.query.filter_by(badge=badge).count()\<close>\<close>

definition count_by_badge :: "store \<Rightarrow> string \<Rightarrow> int" where
  "count_by_badge st b = int (length (filter (\<lambda>e. badge e = b) st))"

definition stats :: "store \<Rightarrow> json \<times> nat" where
  "stats st =
     (let emissions = st;
          total_co2 = py_sum (map co2 emissions);
          avg_co2 = (if emissions \<noteq> []
                     then PyFloat (as_real total_co2 / real (length emissions))
                     else PyInt 0);
          badge_counts = map (\<lambda>b. (b, JNum (PyInt (count_by_badge st b))))
                             [''Green'', ''Yellow'', ''Red''];
          emissions_data = map emission_dict emissions
      in (JDict [(''total_co2'', JNum total_co2),
                 (''average_co2'', JNum avg_co2),
                 (''badge_counts'', JDict badge_counts),
                 (''emissions'', JList emissions_data)],
          200))"

section \<open>\<^verbatim>\<open>GET /latest_co2_badge\<close>\<close>

text \<open>
  \<^verbatim>\<open>Emission.query.order_by(Emission.timestamp.desc()).first()\<close>. SQLite compares the
  stored timestamps as texts of fixed-width fields, that is, field by field from the
  year down to the microsecond. Which of several rows with the same timestamp comes
  first is not fixed by the query; the model takes the one inserted last.
\<close>

definition timestamp_key :: "datetime \<Rightarrow> nat \<times> nat \<times> nat \<times> nat \<times> nat \<times> nat \<times> nat" where
  "timestamp_key dt =
     (year dt, month dt, day dt, hour dt, minute dt, second dt, microsecond dt)"

definition order_by_timestamp_desc :: "store \<Rightarrow> emission list" where
  "order_by_timestamp_desc st = rev (sort_key (\<lambda>e. timestamp_key (timestamp e)) st)"

definition first :: "'a list \<Rightarrow> 'a option" where
  "first xs = (case xs of [] \<Rightarrow> None | x # _ \<Rightarrow> Some x)"

definition color_map :: "(string \<times> string) list" where
  "color_map = [(''Green'', ''brightgreen''), (''Yellow'', ''yellow''), (''Red'', ''red'')]"

definition latest_co2_badge :: "store \<Rightarrow> json \<times> nat" where
  "latest_co2_badge st =
     (let latest = first (order_by_timestamp_desc st);
          (val, color) =
            (case latest of
               None \<Rightarrow> (''No Data'', ''lightgrey'')
             | Some l \<Rightarrow>
                 (badge l,
                  case map_of color_map (badge l) of None \<Rightarrow> ''lightgrey'' | Some c \<Rightarrow> c))
      in (JDict [(''schemaVersion'', JNum (PyInt 1)),
                 (''label'', JStr ''CO2''),
                 (''message'', JStr val),
                 (''color'', JStr color)],
          200))"

text \<open>Reading a key of a JSON object, as a client of the API does.\<close>

fun field :: "json \<Rightarrow> string \<Rightarrow> json option" where
  "field (JDict kvs) k = map_of kvs k"
| "field _ k = None"

section \<open>Example data\<close>

text \<open>
  Concrete requests and rows on which the properties below are evaluated. The two
  payloads are those of the specification's scenario for the latest badge; the rows
  carry the \<^verbatim>\<open>co2\<close> values 0.1, 0.2 and 0.3 of its scenario for the statistics.
\<close>

definition january :: "nat \<Rightarrow> datetime" where
  "january d = \<lparr>year = 2024, month = 1, day = d, hour = 0, minute = 0, second = 0,
                 microsecond = 0\<rparr>"

definition sample_row :: "int \<Rightarrow> real \<Rightarrow> string \<Rightarrow> nat \<Rightarrow> emission" where
  "sample_row i c b d =
     \<lparr>emission_id = i, repo = ''frontend-app'', owner = ''carbon-cost-team'', run_id = ''7'',
      co2 = c, duration = 60, machine_type = ''ubuntu-latest'', badge = b,
      timestamp = january d\<rparr>"

definition sample_store :: store where
  "sample_store =
     [sample_row 1 (1 / 10) ''Green'' 5, sample_row 2 (2 / 10) ''Blue'' 1,
      sample_row 3 (3 / 10) ''Red'' 3]"

definition record_A :: json where
  "record_A = JDict [(''timestamp'', JStr ''2024-01-01T00:00:00Z''), (''badge'', JStr ''Green'')]"

definition record_B :: json where
  "record_B = JDict [(''timestamp'', JStr ''2024-01-05T00:00:00Z''), (''badge'', JStr ''Red'')]"

text \<open>The rows that the two payloads are stored as, under the key \<open>i\<close>.\<close>

definition row_A :: "int \<Rightarrow> emission" where
  "row_A i = \<lparr>emission_id = i, repo = [], owner = [], run_id = [], co2 = 0, duration = 0,
               machine_type = [], badge = ''Green'', timestamp = january 1\<rparr>"

definition row_B :: "int \<Rightarrow> emission" where
  "row_B i = \<lparr>emission_id = i, repo = [], owner = [], run_id = [], co2 = 0, duration = 0,
               machine_type = [], badge = ''Red'', timestamp = january 5\<rparr>"

text \<open>The store after a sequence of requests to \<^verbatim>\<open>POST /record\<close>.\<close>

definition ingest_all :: "store \<Rightarrow> json list \<Rightarrow> store" where
  "ingest_all st reqs = foldl (\<lambda>s data. fst (record_handler s (Some data))) st reqs"

text \<open>
  A payload with every field supplied, which is stored as \<open>sample_row i (1 / 10) ''Green'' 5\<close>,
  and one with a negative \<^verbatim>\<open>co2\<close> and a negative \<^verbatim>\<open>duration\<close>.
\<close>

definition full_payload :: "(string \<times> json) list" where
  "full_payload =
     [(''repo'', JStr ''frontend-app''), (''owner'', JStr ''carbon-cost-team''),
      (''run_id'', JStr ''7''), (''co2'', JNum (PyFloat (1 / 10))),
      (''duration'', JNum (PyInt 60)), (''machine_type'', JStr ''ubuntu-latest''),
      (''badge'', JStr ''Green''), (''timestamp'', JStr ''2024-01-05T00:00:00Z'')]"

definition negative_payload :: "(string \<times> json) list" where
  "negative_payload =
     [(''co2'', JNum (PyFloat (- (3 / 2)))), (''duration'', JNum (PyInt (- 3))),
      (''timestamp'', JStr ''2024-01-01T00:00:00Z'')]"

text \<open>The data model's constraint on the two quantities, as a predicate on the store.\<close>

definition non_negative :: "store \<Rightarrow> bool" where
  "non_negative st = list_all (\<lambda>e. 0 \<le> co2 e \<and> 0 \<le> duration e) st"

section \<open>Properties of the endpoints\<close>

subsection \<open>Auxiliary facts\<close>

lemma try_bind_Inr_iff: "try_bind m f = Inr y \<longleftrightarrow> (\<exists>x. m = Inr x \<and> f x = Inr y)"
  by (cases m) auto

lemma db_String_Inr_iff: "db_String v = Inr s \<longleftrightarrow> v = JStr s"
  by (cases v) auto

lemma db_Integer_Inr_iff:
  "db_Integer n = Inr m \<longleftrightarrow> m = n \<and> - (2 ^ 63) \<le> n \<and> n < 2 ^ 63"
  by (auto simp: db_Integer_def)

lemma parse_timestamp_Inr_iff:
  "parse_timestamp v = Inr t \<longleftrightarrow>
     (\<exists>s. v = JStr s \<and> fromisoformat (replace s CHR ''Z'' ''+00:00'') = Some t)"
  by (cases v) (auto simp: parse_timestamp_def split: option.splits)

lemma py_get_Inr_iff:
  "py_get data k d = Inr v \<longleftrightarrow> (\<exists>kvs. data = JDict kvs \<and> v = dict_get kvs k d)"
  by (cases data) auto

lemma new_emission_Inr_iff:
  "new_emission data = Inr args \<longleftrightarrow>
     (\<exists>kvs c d t. data = JDict kvs
        \<and> py_float (dict_get kvs ''co2'' (JNum (PyInt 0))) = Inr c
        \<and> py_int (dict_get kvs ''duration'' (JNum (PyInt 0))) = Inr d
        \<and> parse_timestamp (dict_get kvs ''timestamp'' (JStr [])) = Inr t
        \<and> args = (dict_get kvs ''repo'' (JStr []), dict_get kvs ''owner'' (JStr []),
                   dict_get kvs ''run_id'' (JStr []), c, d,
                   dict_get kvs ''machine_type'' (JStr []), dict_get kvs ''badge'' (JStr []), t))"
  unfolding new_emission_def try_bind_Inr_iff py_get_Inr_iff
  by (cases data) auto

lemma commit_Inr_iff:
  "commit st (rv, ov, uv, c, d, mv, bv, (dt, tz)) = Inr (st', i) \<longleftrightarrow>
     (\<exists>r ow ru mt ba. rv = JStr r \<and> ov = JStr ow \<and> uv = JStr ru \<and> mv = JStr mt \<and> bv = JStr ba
        \<and> - (2 ^ 63) \<le> d \<and> d < 2 ^ 63 \<and> i = next_id st
        \<and> st' = st @ [\<lparr>emission_id = next_id st, repo = r, owner = ow, run_id = ru,
                         co2 = c, duration = d, machine_type = mt, badge = ba,
                         timestamp = dt\<rparr>])"
  unfolding commit_def prod.case try_bind_Inr_iff db_String_Inr_iff db_Integer_Inr_iff
  by auto

lemma record_handler_Success_iff:
  "record_handler st body = (st', Success i, code) \<longleftrightarrow>
     (\<exists>kvs c d s dt tz r ow ru mt ba.
        body = Some (JDict kvs) \<and> kvs \<noteq> [] \<and> code = 201 \<and> i = next_id st
        \<and> py_float (dict_get kvs ''co2'' (JNum (PyInt 0))) = Inr c
        \<and> py_int (dict_get kvs ''duration'' (JNum (PyInt 0))) = Inr d
        \<and> - (2 ^ 63) \<le> d \<and> d < 2 ^ 63
        \<and> dict_get kvs ''timestamp'' (JStr []) = JStr s
        \<and> fromisoformat (replace s CHR ''Z'' ''+00:00'') = Some (dt, tz)
        \<and> dict_get kvs ''repo'' (JStr []) = JStr r
        \<and> dict_get kvs ''owner'' (JStr []) = JStr ow
        \<and> dict_get kvs ''run_id'' (JStr []) = JStr ru
        \<and> dict_get kvs ''machine_type'' (JStr []) = JStr mt
        \<and> dict_get kvs ''badge'' (JStr []) = JStr ba
        \<and> st' = st @ [\<lparr>emission_id = next_id st, repo = r, owner = ow, run_id = ru,
                         co2 = c, duration = d, machine_type = mt, badge = ba,
                         timestamp = dt\<rparr>])"
  (is "?L \<longleftrightarrow> ?R")
proof
  assume ?L
  then obtain data where body: "body = Some data" and tr: "truthy data"
    and ok: "try_bind (new_emission data) (commit st) = Inr (st', i)" and code: "code = 201"
    by (auto simp: record_handler_def split: option.splits if_splits sum.splits)
  from ok obtain args where ne: "new_emission data = Inr args" and co: "commit st args = Inr (st', i)"
    by (auto simp: try_bind_Inr_iff)
  from ne obtain kvs c d t where data: "data = JDict kvs"
    and c: "py_float (dict_get kvs ''co2'' (JNum (PyInt 0))) = Inr c"
    and d: "py_int (dict_get kvs ''duration'' (JNum (PyInt 0))) = Inr d"
    and t: "parse_timestamp (dict_get kvs ''timestamp'' (JStr [])) = Inr t"
    and args: "args = (dict_get kvs ''repo'' (JStr []), dict_get kvs ''owner'' (JStr []),
                   dict_get kvs ''run_id'' (JStr []), c, d,
                   dict_get kvs ''machine_type'' (JStr []), dict_get kvs ''badge'' (JStr []), t)"
    unfolding new_emission_Inr_iff by blast
  obtain dt tz where tt: "t = (dt, tz)" by (cases t)
  from t tt obtain s where s: "dict_get kvs ''timestamp'' (JStr []) = JStr s"
    and p: "fromisoformat (replace s CHR ''Z'' ''+00:00'') = Some (dt, tz)"
    by (auto simp: parse_timestamp_Inr_iff)
  from co[unfolded args tt commit_Inr_iff] tr data body code c d s p
  show ?R by auto
next
  assume ?R
  then obtain kvs c d s dt tz r ow ru mt ba where
    h: "body = Some (JDict kvs)" "kvs \<noteq> []" "code = 201" "i = next_id st"
       "py_float (dict_get kvs ''co2'' (JNum (PyInt 0))) = Inr c"
       "py_int (dict_get kvs ''duration'' (JNum (PyInt 0))) = Inr d"
       "- (2 ^ 63) \<le> d" "d < 2 ^ 63"
       "dict_get kvs ''timestamp'' (JStr []) = JStr s"
       "fromisoformat (replace s CHR ''Z'' ''+00:00'') = Some (dt, tz)"
       "dict_get kvs ''repo'' (JStr []) = JStr r"
       "dict_get kvs ''owner'' (JStr []) = JStr ow"
       "dict_get kvs ''run_id'' (JStr []) = JStr ru"
       "dict_get kvs ''machine_type'' (JStr []) = JStr mt"
       "dict_get kvs ''badge'' (JStr []) = JStr ba"
       "st' = st @ [\<lparr>emission_id = next_id st, repo = r, owner = ow, run_id = ru,
                         co2 = c, duration = d, machine_type = mt, badge = ba,
                         timestamp = dt\<rparr>]"
    by blast
  have ne: "new_emission (JDict kvs) = Inr (JStr r, JStr ow, JStr ru, c, d, JStr mt, JStr ba, (dt, tz))"
    unfolding new_emission_Inr_iff using h by (simp add: parse_timestamp_Inr_iff)
  have co: "commit st (JStr r, JStr ow, JStr ru, c, d, JStr mt, JStr ba, (dt, tz)) = Inr (st', i)"
    unfolding commit_Inr_iff using h by simp
  show ?L using h(1,2,3) ne co by (simp add: record_handler_def)
qed

lemma record_handler_not_Success:
  "(\<forall>st' i code. record_handler st body \<noteq> (st', Success i, code)) \<Longrightarrow>
   \<exists>r code. record_handler st body = (st, r, code)
      \<and> (r = No_data_provided \<and> code = 400 \<or> (\<exists>e. r = Failed e) \<and> code = 500)"
  by (auto simp: record_handler_def split: option.splits if_splits sum.splits)

lemma fromisoformat_Nil: "fromisoformat [] = None"
  by (simp add: fromisoformat_def parse_isoformat_date_def)

lemma as_real_foldl_sum:
  "as_real (foldl (\<lambda>acc x. PyFloat (as_real acc + x)) a xs) = as_real a + sum_list xs"
  by (induction xs arbitrary: a) auto

lemma as_real_py_sum: "as_real (py_sum xs) = sum_list xs"
  by (simp add: py_sum_def as_real_foldl_sum)

lemma first_rev: "xs \<noteq> [] \<Longrightarrow> first (rev xs) = Some (last xs)"
  by (cases xs rule: rev_cases) (auto simp: first_def)

lemma sorted_le_last: "sorted xs \<Longrightarrow> x \<in> set xs \<Longrightarrow> x \<le> last xs"
  by (induction xs) auto

lemma latest_is_greatest:
  assumes "st \<noteq> []"
  shows "\<exists>l. first (order_by_timestamp_desc st) = Some l \<and> l \<in> set st
     \<and> (\<forall>e\<in>set st. timestamp_key (timestamp e) \<le> timestamp_key (timestamp l))"
proof -
  let ?k = "\<lambda>e. timestamp_key (timestamp e)"
  let ?s = "sort_key ?k st"
  have ne: "?s \<noteq> []" using assms by (metis length_sort length_0_conv)
  have f: "first (order_by_timestamp_desc st) = Some (last ?s)"
    using ne by (simp add: order_by_timestamp_desc_def first_rev)
  have m: "last ?s \<in> set st" using ne last_in_set[OF ne] by simp
  have "\<forall>e\<in>set st. ?k e \<le> ?k (last ?s)"
  proof
    fix e assume "e \<in> set st"
    then have "?k e \<in> set (map ?k ?s)" by simp
    moreover have "sorted (map ?k ?s)" by simp
    ultimately have "?k e \<le> last (map ?k ?s)" by (rule sorted_le_last[rotated])
    then show "?k e \<le> ?k (last ?s)" using ne by (simp add: last_map)
  qed
  with f m show ?thesis by blast
qed

lemma first_order_by_Nil: "first (order_by_timestamp_desc []) = None"
  by (simp add: order_by_timestamp_desc_def first_def)

lemma latest_co2_badge_Some:
  "first (order_by_timestamp_desc st) = Some l \<Longrightarrow>
   latest_co2_badge st =
     (JDict [(''schemaVersion'', JNum (PyInt 1)), (''label'', JStr ''CO2''),
             (''message'', JStr (badge l)),
             (''color'', JStr (if badge l = ''Green'' then ''brightgreen''
                              else if badge l = ''Yellow'' then ''yellow''
                              else if badge l = ''Red'' then ''red'' else ''lightgrey''))], 200)"
  by (simp add: latest_co2_badge_def color_map_def)

lemma latest_co2_badge_Nil:
  "latest_co2_badge [] =
     (JDict [(''schemaVersion'', JNum (PyInt 1)), (''label'', JStr ''CO2''),
             (''message'', JStr ''No Data''), (''color'', JStr ''lightgrey'')], 200)"
  by (simp add: latest_co2_badge_def first_order_by_Nil)

lemmas sample_defs = sample_store_def sample_row_def january_def

lemma first_sample_store:
  "first (order_by_timestamp_desc sample_store) = Some (sample_row 1 (1 / 10) ''Green'' 5)"
  by (simp add: sample_defs order_by_timestamp_desc_def first_def timestamp_key_def)

lemma first_blue_row:
  "first (order_by_timestamp_desc [sample_row 2 (2 / 10) ''Blue'' 1])
     = Some (sample_row 2 (2 / 10) ''Blue'' 1)"
  by (simp add: sample_defs order_by_timestamp_desc_def first_def timestamp_key_def)

lemmas parse_defs = fromisoformat_def parse_isoformat_date_def parse_isoformat_time_def
  parse_hh_mm_ss_ff_def two_digits_def digits_val_def is_digit_def digit_val_def
  new_datetime_def days_in_month_def is_leap_def

lemma parse_january_1: "fromisoformat ''2024-01-01T00:00:00+00:00'' = Some (january 1, Some 0)"
  by (simp add: parse_defs Let_def january_def)

lemma parse_january_5: "fromisoformat ''2024-01-05T00:00:00+00:00'' = Some (january 5, Some 0)"
  by (simp add: parse_defs Let_def january_def)

lemma record_A_stored:
  "record_handler st (Some record_A) = (st @ [row_A (next_id st)], Success (next_id st), 201)"
  unfolding record_handler_Success_iff
  by (simp add: record_A_def dict_get_def parse_january_1 row_A_def)

lemma record_B_stored:
  "record_handler st (Some record_B) = (st @ [row_B (next_id st)], Success (next_id st), 201)"
  unfolding record_handler_Success_iff
  by (simp add: record_B_def dict_get_def parse_january_5 row_B_def)

lemma latest_A_B:
  "latest_co2_badge [row_A i, row_B j] =
     (JDict [(''schemaVersion'', JNum (PyInt 1)), (''label'', JStr ''CO2''),
             (''message'', JStr ''Red''), (''color'', JStr ''red'')], 200)"
  by (simp add: latest_co2_badge_def order_by_timestamp_desc_def first_def timestamp_key_def
        color_map_def row_A_def row_B_def january_def)

lemma latest_B_A:
  "latest_co2_badge [row_B i, row_A j] =
     (JDict [(''schemaVersion'', JNum (PyInt 1)), (''label'', JStr ''CO2''),
             (''message'', JStr ''Red''), (''color'', JStr ''red'')], 200)"
  by (simp add: latest_co2_badge_def order_by_timestamp_desc_def first_def timestamp_key_def
        color_map_def row_A_def row_B_def january_def)

lemma parse_garbage: "fromisoformat (replace ''yesterday'' CHR ''Z'' ''+00:00'') = None"
  by (simp add: fromisoformat_def parse_isoformat_date_def)

lemma record_handler_SuccessD:
  assumes "record_handler st body = (st', Success i, code)"
  shows "\<exists>kvs e s tz. body = Some (JDict kvs) \<and> kvs \<noteq> [] \<and> code = 201 \<and> i = next_id st
        \<and> st' = st @ [e] \<and> emission_id e = next_id st
        \<and> py_float (dict_get kvs ''co2'' (JNum (PyInt 0))) = Inr (co2 e)
        \<and> py_int (dict_get kvs ''duration'' (JNum (PyInt 0))) = Inr (duration e)
        \<and> - (2 ^ 63) \<le> duration e \<and> duration e < 2 ^ 63
        \<and> dict_get kvs ''timestamp'' (JStr []) = JStr s
        \<and> fromisoformat (replace s CHR ''Z'' ''+00:00'') = Some (timestamp e, tz)
        \<and> dict_get kvs ''repo'' (JStr []) = JStr (repo e)
        \<and> dict_get kvs ''owner'' (JStr []) = JStr (owner e)
        \<and> dict_get kvs ''run_id'' (JStr []) = JStr (run_id e)
        \<and> dict_get kvs ''machine_type'' (JStr []) = JStr (machine_type e)
        \<and> dict_get kvs ''badge'' (JStr []) = JStr (badge e)"
proof -
  from assms obtain kvs c d s dt tz r ow ru mt ba where
    h: "body = Some (JDict kvs)" "kvs \<noteq> []" "code = 201" "i = next_id st"
       "py_float (dict_get kvs ''co2'' (JNum (PyInt 0))) = Inr c"
       "py_int (dict_get kvs ''duration'' (JNum (PyInt 0))) = Inr d"
       "- (2 ^ 63) \<le> d" "d < 2 ^ 63"
       "dict_get kvs ''timestamp'' (JStr []) = JStr s"
       "fromisoformat (replace s CHR ''Z'' ''+00:00'') = Some (dt, tz)"
       "dict_get kvs ''repo'' (JStr []) = JStr r"
       "dict_get kvs ''owner'' (JStr []) = JStr ow"
       "dict_get kvs ''run_id'' (JStr []) = JStr ru"
       "dict_get kvs ''machine_type'' (JStr []) = JStr mt"
       "dict_get kvs ''badge'' (JStr []) = JStr ba"
       "st' = st @ [\<lparr>emission_id = next_id st, repo = r, owner = ow, run_id = ru,
                         co2 = c, duration = d, machine_type = mt, badge = ba,
                         timestamp = dt\<rparr>]"
    unfolding record_handler_Success_iff by (elim exE conjE) (rule that)
  let ?e = "\<lparr>emission_id = next_id st, repo = r, owner = ow, run_id = ru,
                         co2 = c, duration = d, machine_type = mt, badge = ba,
                         timestamp = dt\<rparr>"
  show ?thesis
    apply (rule exI[of _ kvs])
    apply (rule exI[of _ ?e])
    apply (rule exI[of _ s])
    apply (rule exI[of _ tz])
    using h apply simp
    done
qed

lemmas handler_defs = record_handler_def new_emission_def commit_def parse_timestamp_def
  db_Integer_def dict_get_def

lemma full_payload_stored:
  "record_handler st (Some (JDict full_payload))
     = (st @ [sample_row (next_id st) (1 / 10) ''Green'' 5], Success (next_id st), 201)"
  by (simp add: handler_defs full_payload_def parse_january_5 sample_row_def)

lemma non_negative_sample_store: "non_negative sample_store"
  by (simp add: non_negative_def sample_defs)

lemma foldl_max_ge: "(a::int) \<le> foldl max a xs"
proof (induction xs arbitrary: a)
  case Nil
  show ?case by simp
next
  case (Cons x xs)
  have "a \<le> max a x" by simp
  also have "\<dots> \<le> foldl max (max a x) xs" by (rule Cons.IH)
  finally show ?case by simp
qed

lemma foldl_max_mem: "x \<in> set xs \<Longrightarrow> (x::int) \<le> foldl max a xs"
proof (induction xs arbitrary: a)
  case Nil
  then show ?case by simp
next
  case (Cons y ys)
  show ?case
  proof (cases "x = y")
    case True
    have "x \<le> max a y" using True by simp
    also have "\<dots> \<le> foldl max (max a y) ys" by (rule foldl_max_ge)
    finally show ?thesis by simp
  next
    case False
    with Cons.prems have "x \<in> set ys" by simp
    from Cons.IH [OF this] show ?thesis by simp
  qed
qed

lemma emission_id_less_next_id: "e \<in> set st \<Longrightarrow> emission_id e < next_id st"
  using foldl_max_mem [of "emission_id e" "map emission_id st" 0]
  by (simp add: next_id_def)

lemma fresh_id_once:
  "emission_id e = next_id st \<Longrightarrow> length (filter (\<lambda>x. emission_id x = next_id st) (st @ [e])) = 1"
proof -
  assume e: "emission_id e = next_id st"
  have "filter (\<lambda>x. emission_id x = next_id st) st = []"
    using emission_id_less_next_id by (fastforce simp: filter_empty_conv)
  with e show ?thesis by simp
qed

lemma replicate_numeral: "replicate (numeral k) x = x # replicate (pred_numeral k) x"
  by (simp add: numeral_eq_Suc)

lemma isoformat_january_5: "isoformat (january 5) = ''2024-01-05T00:00:00''"
  by (simp add: isoformat_def zero_pad_def digit_char_def january_def replicate_numeral)

lemma find_ge: "- 1 \<le> find xs c"
  by (induction xs) (auto simp: Let_def)

lemma find_in: "c \<in> set xs \<Longrightarrow> 0 \<le> find xs c"
  by (induction xs) (auto simp: Let_def)

lemma replace_append_old: "old \<notin> set b \<Longrightarrow> replace (b @ [old]) old new = b @ new"
  by (induction b) auto

lemma find_notin: "c \<notin> set xs \<Longrightarrow> find xs c = - 1"
  by (induction xs) (auto simp: Let_def)

lemma find_append_first: "c \<notin> set xs \<Longrightarrow> find (xs @ c # ys) c = int (length xs)"
  by (induction xs) (auto simp: Let_def)

lemma parse_hh_mm_ss_ff_zero: "parse_hh_mm_ss_ff ''00:00'' = Some (0, 0, 0, 0)"
  by (simp add: parse_hh_mm_ss_ff_def two_digits_def digits_val_def is_digit_def digit_val_def)

lemma parse_isoformat_time_naiveD:
  assumes "parse_isoformat_time tstr = Some (time, None)"
  shows "CHR ''-'' \<notin> set tstr \<and> CHR ''+'' \<notin> set tstr
         \<and> parse_hh_mm_ss_ff tstr = Some time \<and> 2 \<le> length tstr"
proof -
  have len: "2 \<le> length tstr"
    using assms by (auto simp: parse_isoformat_time_def split: if_splits)
  have pos: "\<not> 0 < (if find tstr CHR ''-'' + 1 \<noteq> 0 then find tstr CHR ''-'' + 1
                      else find tstr CHR ''+'' + 1)"
  proof
    assume "0 < (if find tstr CHR ''-'' + 1 \<noteq> 0 then find tstr CHR ''-'' + 1
                      else find tstr CHR ''+'' + 1)"
    with assms len show False
      by (simp add: parse_isoformat_time_def Let_def split: option.splits if_splits prod.splits)
  qed
  have m: "find tstr CHR ''-'' = - 1"
    using pos find_ge [of tstr "CHR ''-''"] by (auto split: if_splits)
  have p: "find tstr CHR ''+'' = - 1"
    using pos m find_ge [of tstr "CHR ''+''"] by (auto split: if_splits)
  have "CHR ''-'' \<notin> set tstr" using m find_in [of "CHR ''-''" tstr] by auto
  moreover have "CHR ''+'' \<notin> set tstr" using p find_in [of "CHR ''+''" tstr] by auto
  moreover have "parse_hh_mm_ss_ff tstr = Some time"
    using assms len m p by (simp add: parse_isoformat_time_def Let_def split: option.splits)
  ultimately show ?thesis using len by blast
qed

lemma parse_isoformat_time_utc:
  assumes "CHR ''-'' \<notin> set tstr" "CHR ''+'' \<notin> set tstr"
    and "parse_hh_mm_ss_ff tstr = Some time" "2 \<le> length tstr"
  shows "parse_isoformat_time (tstr @ ''+00:00'') = Some (time, Some 0)"
proof -
  let ?n = "length tstr"
  let ?t = "tstr @ ''+00:00''"
  have m: "find ?t CHR ''-'' = - 1"
    using assms(1) by (intro find_notin) simp
  have p: "find ?t CHR ''+'' = int ?n"
    using find_append_first [OF assms(2), of "''00:00''"] by simp
  have tz: "(if find ?t CHR ''-'' + 1 \<noteq> 0 then find ?t CHR ''-'' + 1
             else find ?t CHR ''+'' + 1) = int (Suc ?n)"
    by (simp add: m p)
  have tk: "take ?n ?t = tstr" by simp
  have dr: "drop (Suc ?n) ?t = ''00:00''" by simp
  have len: "\<not> length ?t < 2" by simp
  have l5: "length ''00:00'' = 5" by simp
  show ?thesis
    unfolding parse_isoformat_time_def tz Let_def
    apply (simp only: len if_False nat_int of_nat_0_less_iff zero_less_Suc if_True)
    apply (simp only: of_nat_Suc add_diff_cancel_right' nat_int tk assms(3) option.case)
    apply (simp only: flip: of_nat_Suc)
    apply (simp only: nat_int dr l5 parse_hh_mm_ss_ff_zero)
    apply (simp add: assms(3))
    done
qed

lemma parse_isoformat_time_zero: "parse_isoformat_time ''00:00'' = Some ((0, 0, 0, 0), None)"
  by (simp add: parse_isoformat_time_def Let_def parse_hh_mm_ss_ff_zero)

lemma fromisoformat_append_utc:
  assumes "fromisoformat b = Some (dt, None)"
  shows "fromisoformat (b @ ''+00:00'') = Some (dt, if length b = 10 then None else Some 0)"
proof -
  from assms obtain date where d: "parse_isoformat_date (take 10 b) = Some date"
    by (auto simp: fromisoformat_def split: option.splits)
  then have l10: "10 \<le> length b"
    by (auto simp: parse_isoformat_date_def split: if_splits)
  show ?thesis
  proof (cases "length b = 10")
    case True
    with assms d have nd: "new_datetime date (0, 0, 0, 0) = Some dt"
      by (auto simp: fromisoformat_def)
    from True have dr: "drop 11 (b @ ''+00:00'') = ''00:00''" by simp
    from True d nd show ?thesis
      by (simp add: fromisoformat_def dr parse_isoformat_time_zero)
  next
    case False
    with assms d obtain time where
      t: "parse_isoformat_time (drop 11 b) = Some (time, None)"
      and nd: "new_datetime date time = Some dt"
      by (auto simp: fromisoformat_def split: option.splits)
    from parse_isoformat_time_naiveD [OF t] have
      n: "CHR ''-'' \<notin> set (drop 11 b)" "CHR ''+'' \<notin> set (drop 11 b)"
         "parse_hh_mm_ss_ff (drop 11 b) = Some time" "2 \<le> length (drop 11 b)"
      by auto
    from n(4) have l13: "13 \<le> length b" by simp
    then have dr: "drop 11 (b @ ''+00:00'') = drop 11 b @ ''+00:00''" by simp
    from l13 d nd parse_isoformat_time_utc [OF n] False show ?thesis
      by (simp add: fromisoformat_def dr)
  qed
qed

lemma timestamp_only_stored:
  assumes "fromisoformat (replace s CHR ''Z'' ''+00:00'') = Some (dt, tz)"
  shows "record_handler st (Some (JDict [(''timestamp'', JStr s)]))
     = (st @ [\<lparr>emission_id = next_id st, repo = [], owner = [], run_id = [], co2 = 0,
                duration = 0, machine_type = [], badge = [], timestamp = dt\<rparr>],
        Success (next_id st), 201)"
  using assms by (simp add: handler_defs)

lemma parse_january_1_naive: "fromisoformat ''2024-01-01T00:00:00'' = Some (january 1, None)"
  by (simp add: parse_defs Let_def january_def)

subsection \<open>An empty JSON object is refused\<close>

text \<open>
  C10. A request to \<^verbatim>\<open>POST /record\<close> whose body is the empty object \<^verbatim>\<open>{}\<close> is
  answered with status 400 and \<^verbatim>\<open>No data provided\<close>, and the store is left as it
  was: the empty dict is falsy, so the handler returns before any default is applied.
\<close>

theorem record_empty_object_400:
  "record_handler st (Some (JDict [])) = (st, No_data_provided, 400)"
  by (simp add: record_handler_def)

subsection \<open>The statistics\<close>

text \<open>
  C2. For every store, and so after any sequence of ingests, the \<^verbatim>\<open>total_co2\<close> of the
  response of \<^verbatim>\<open>GET /stats\<close> is a number whose value is the sum of the \<^verbatim>\<open>co2\<close> of all
  stored rows; for the empty store it is the integer 0. The response has status 200.
\<close>

theorem stats_total_co2:
  "\<exists>t. field (fst (stats st)) ''total_co2'' = Some (JNum t)
       \<and> as_real t = (\<Sum>e\<leftarrow>st. co2 e)
       \<and> field (fst (stats [])) ''total_co2'' = Some (JNum (PyInt 0))
       \<and> snd (stats st) = 200"
proof -
  have "py_sum [] = PyInt 0" by (simp add: py_sum_def)
  then show ?thesis by (simp add: stats_def Let_def as_real_py_sum)
qed

text \<open>On the rows with \<^verbatim>\<open>co2\<close> 0.1, 0.2 and 0.3 the total is 0.6.\<close>

theorem stats_total_co2_witness:
  "\<exists>t. field (fst (stats sample_store)) ''total_co2'' = Some (JNum t) \<and> as_real t = 6 / 10"
  using stats_total_co2 [of sample_store] by (auto simp: sample_defs)

text \<open>
  C3. For every store, the \<^verbatim>\<open>average_co2\<close> of the response of \<^verbatim>\<open>GET /stats\<close> is the
  \<^verbatim>\<open>total_co2\<close> divided by the number of stored rows when there is a row, and the
  integer 0 when there is none: the division is never by zero.
\<close>

theorem stats_average_co2:
  "\<exists>t a. field (fst (stats st)) ''total_co2'' = Some (JNum t)
       \<and> field (fst (stats st)) ''average_co2'' = Some (JNum a)
       \<and> (st \<noteq> [] \<longrightarrow> as_real a = as_real t / real (length st))
       \<and> (st = [] \<longrightarrow> a = PyInt 0)"
  by (simp add: stats_def Let_def)

text \<open>On the three rows the average is 0.2; on the empty store it is 0.\<close>

theorem stats_average_co2_witness:
  "(\<exists>a. field (fst (stats sample_store)) ''average_co2'' = Some (JNum a) \<and> as_real a = 2 / 10)
   \<and> field (fst (stats [])) ''average_co2'' = Some (JNum (PyInt 0))"
proof -
  have ne: "sample_store \<noteq> []" and len: "length sample_store = 3"
    by (simp_all add: sample_store_def)
  have tot: "\<And>t. field (fst (stats sample_store)) ''total_co2'' = Some (JNum t)
               \<Longrightarrow> as_real t = 6 / 10"
    by (auto simp: stats_def Let_def as_real_py_sum sample_defs)
  from stats_average_co2 [of sample_store] ne len tot
  have "\<exists>a. field (fst (stats sample_store)) ''average_co2'' = Some (JNum a)
           \<and> as_real a = 2 / 10"
    by auto
  moreover from stats_average_co2 [of "[]"]
  have "field (fst (stats [])) ''average_co2'' = Some (JNum (PyInt 0))" by auto
  ultimately show ?thesis by blast
qed

text \<open>
  C4. For every store, the \<^verbatim>\<open>badge_counts\<close> of the response of \<^verbatim>\<open>GET /stats\<close> has exactly
  the keys \<^verbatim>\<open>Green\<close>, \<^verbatim>\<open>Yellow\<close> and \<^verbatim>\<open>Red\<close>; the entry of each is the number of stored
  rows with that badge, hence 0 for a badge that no row has; and the three entries
  together count exactly the rows whose badge is one of the three, so that a row with
  any other badge is counted in none of them.
\<close>

theorem stats_badge_counts:
  "\<exists>counts. field (fst (stats st)) ''badge_counts'' = Some (JDict counts)
      \<and> map fst counts = [''Green'', ''Yellow'', ''Red'']
      \<and> (\<forall>b\<in>{''Green'', ''Yellow'', ''Red''}.
            map_of counts b = Some (JNum (PyInt (int (length (filter (\<lambda>e. badge e = b) st))))))
      \<and> (\<forall>b\<in>{''Green'', ''Yellow'', ''Red''}.
            b \<notin> badge ` set st \<longrightarrow> map_of counts b = Some (JNum (PyInt 0)))
      \<and> (\<Sum>b\<leftarrow>[''Green'', ''Yellow'', ''Red'']. count_by_badge st b)
          = int (length (filter (\<lambda>e. badge e \<in> {''Green'', ''Yellow'', ''Red''}) st))"
proof -
  have a: "(\<Sum>b\<leftarrow>[''Green'', ''Yellow'', ''Red'']. count_by_badge st b)
      = int (length (filter (\<lambda>e. badge e \<in> {''Green'', ''Yellow'', ''Red''}) st))"
    by (induction st) (auto simp: count_by_badge_def)
  have b: "\<And>b. b \<notin> badge ` set st \<Longrightarrow> filter (\<lambda>e. badge e = b) st = []"
    by (auto simp: filter_empty_conv)
  show ?thesis
    using a b by (simp add: stats_def Let_def count_by_badge_def)
qed

text \<open>
  The sample store has a \<^verbatim>\<open>Green\<close>, a \<^verbatim>\<open>Blue\<close> and a \<^verbatim>\<open>Red\<close> row: the counts are
  1, 0 and 1, and the \<^verbatim>\<open>Blue\<close> row is in none.
\<close>

theorem stats_badge_counts_witness:
  "field (fst (stats sample_store)) ''badge_counts''
     = Some (JDict [(''Green'', JNum (PyInt 1)), (''Yellow'', JNum (PyInt 0)),
                    (''Red'', JNum (PyInt 1))])
   \<and> length sample_store = 3"
proof -
  from stats_badge_counts [of sample_store] obtain counts where
    c: "field (fst (stats sample_store)) ''badge_counts'' = Some (JDict counts)"
    and k: "map fst counts = [''Green'', ''Yellow'', ''Red'']"
    and v: "\<forall>b\<in>{''Green'', ''Yellow'', ''Red''}.
            map_of counts b
              = Some (JNum (PyInt (int (length (filter (\<lambda>e. badge e = b) sample_store)))))"
    by (elim exE conjE) (rule that)
  from k obtain x y z where counts: "counts = [(''Green'', x), (''Yellow'', y), (''Red'', z)]"
    by (auto simp: map_eq_Cons_conv)
  from v have "x = JNum (PyInt 1)" "y = JNum (PyInt 0)" "z = JNum (PyInt 1)"
    unfolding counts by (simp_all add: sample_defs)
  with c counts show ?thesis by (simp add: sample_store_def)
qed

subsection \<open>The latest badge\<close>

text \<open>
  C6. On the empty store \<^verbatim>\<open>GET /latest_co2_badge\<close> answers with status 200, message
  \<^verbatim>\<open>No Data\<close> and color \<^verbatim>\<open>lightgrey\<close>. On a store with rows, the message is the badge
  of the row \<open>l\<close> that the query for the most recent row returns, a row of the store
  whose timestamp no other exceeds, and the color is \<^verbatim>\<open>brightgreen\<close>, \<^verbatim>\<open>yellow\<close> or
  \<^verbatim>\<open>red\<close> for the badge \<^verbatim>\<open>Green\<close>, \<^verbatim>\<open>Yellow\<close> or \<^verbatim>\<open>Red\<close>, and \<^verbatim>\<open>lightgrey\<close> for any
  other badge.
\<close>

theorem latest_co2_badge_reply:
  "latest_co2_badge [] =
     (JDict [(''schemaVersion'', JNum (PyInt 1)), (''label'', JStr ''CO2''),
             (''message'', JStr ''No Data''), (''color'', JStr ''lightgrey'')], 200)
   \<and> (st \<noteq> [] \<longrightarrow>
        (\<exists>l. first (order_by_timestamp_desc st) = Some l \<and> l \<in> set st
           \<and> (\<forall>e\<in>set st. timestamp_key (timestamp e) \<le> timestamp_key (timestamp l))
           \<and> latest_co2_badge st =
               (JDict [(''schemaVersion'', JNum (PyInt 1)), (''label'', JStr ''CO2''),
                       (''message'', JStr (badge l)),
                       (''color'', JStr (if badge l = ''Green'' then ''brightgreen''
                                        else if badge l = ''Yellow'' then ''yellow''
                                        else if badge l = ''Red'' then ''red''
                                        else ''lightgrey''))], 200)))"
proof (intro conjI impI)
  show "latest_co2_badge [] =
     (JDict [(''schemaVersion'', JNum (PyInt 1)), (''label'', JStr ''CO2''),
             (''message'', JStr ''No Data''), (''color'', JStr ''lightgrey'')], 200)"
    by (rule latest_co2_badge_Nil)
next
  assume "st \<noteq> []"
  from latest_is_greatest [OF this] obtain l where
    l: "first (order_by_timestamp_desc st) = Some l" "l \<in> set st"
       "\<forall>e\<in>set st. timestamp_key (timestamp e) \<le> timestamp_key (timestamp l)"
    by blast
  from l latest_co2_badge_Some [OF l(1)]
  show "\<exists>l. first (order_by_timestamp_desc st) = Some l \<and> l \<in> set st
           \<and> (\<forall>e\<in>set st. timestamp_key (timestamp e) \<le> timestamp_key (timestamp l))
           \<and> latest_co2_badge st =
               (JDict [(''schemaVersion'', JNum (PyInt 1)), (''label'', JStr ''CO2''),
                       (''message'', JStr (badge l)),
                       (''color'', JStr (if badge l = ''Green'' then ''brightgreen''
                                        else if badge l = ''Yellow'' then ''yellow''
                                        else if badge l = ''Red'' then ''red''
                                        else ''lightgrey''))], 200)"
    by blast
qed

text \<open>
  In the sample store the most recent row is the first one, with badge \<^verbatim>\<open>Green\<close>; a
  store holding only the \<^verbatim>\<open>Blue\<close> row gets the default color.
\<close>

theorem latest_co2_badge_reply_witness:
  "latest_co2_badge sample_store =
     (JDict [(''schemaVersion'', JNum (PyInt 1)), (''label'', JStr ''CO2''),
             (''message'', JStr ''Green''), (''color'', JStr ''brightgreen'')], 200)
   \<and> latest_co2_badge [sample_row 2 (2 / 10) ''Blue'' 1] =
     (JDict [(''schemaVersion'', JNum (PyInt 1)), (''label'', JStr ''CO2''),
             (''message'', JStr ''Blue''), (''color'', JStr ''lightgrey'')], 200)"
proof -
  have ne: "sample_store \<noteq> []" by (simp add: sample_store_def)
  from latest_co2_badge_reply [of sample_store] ne first_sample_store
  have a: "latest_co2_badge sample_store =
     (JDict [(''schemaVersion'', JNum (PyInt 1)), (''label'', JStr ''CO2''),
             (''message'', JStr ''Green''), (''color'', JStr ''brightgreen'')], 200)"
    by (auto simp: sample_row_def)
  from latest_co2_badge_reply [of "[sample_row 2 (2 / 10) ''Blue'' 1]"] first_blue_row
  have b: "latest_co2_badge [sample_row 2 (2 / 10) ''Blue'' 1] =
     (JDict [(''schemaVersion'', JNum (PyInt 1)), (''label'', JStr ''CO2''),
             (''message'', JStr ''Blue''), (''color'', JStr ''lightgrey'')], 200)"
    by (auto simp: sample_row_def)
  from a b show ?thesis by blast
qed

text \<open>
  C5. On every store with rows, \<^verbatim>\<open>GET /latest_co2_badge\<close> reports the badge of a row
  whose timestamp no row of the store exceeds, wherever that row stands in the order of
  insertion. In particular, after ingesting into the empty store record A (timestamp
  \<^verbatim>\<open>2024-01-01T00:00:00Z\<close>, badge \<^verbatim>\<open>Green\<close>) and then record B (timestamp
  \<^verbatim>\<open>2024-01-05T00:00:00Z\<close>, badge \<^verbatim>\<open>Red\<close>), the message is \<^verbatim>\<open>Red\<close> and the color
  \<^verbatim>\<open>red\<close>; and so it is when B is ingested first and A last.
\<close>

theorem latest_badge_by_timestamp:
  "(st \<noteq> [] \<longrightarrow>
      (\<exists>l\<in>set st. (\<forall>e\<in>set st. timestamp_key (timestamp e) \<le> timestamp_key (timestamp l))
          \<and> field (fst (latest_co2_badge st)) ''message'' = Some (JStr (badge l))))
   \<and> latest_co2_badge (ingest_all [] [record_A, record_B]) =
       (JDict [(''schemaVersion'', JNum (PyInt 1)), (''label'', JStr ''CO2''),
               (''message'', JStr ''Red''), (''color'', JStr ''red'')], 200)
   \<and> latest_co2_badge (ingest_all [] [record_B, record_A]) =
       (JDict [(''schemaVersion'', JNum (PyInt 1)), (''label'', JStr ''CO2''),
               (''message'', JStr ''Red''), (''color'', JStr ''red'')], 200)"
proof (intro conjI impI)
  assume "st \<noteq> []"
  from latest_is_greatest [OF this] obtain l where
    l: "first (order_by_timestamp_desc st) = Some l" "l \<in> set st"
       "\<forall>e\<in>set st. timestamp_key (timestamp e) \<le> timestamp_key (timestamp l)"
    by blast
  have "field (fst (latest_co2_badge st)) ''message'' = Some (JStr (badge l))"
    by (simp add: latest_co2_badge_Some [OF l(1)])
  with l show "\<exists>l\<in>set st. (\<forall>e\<in>set st. timestamp_key (timestamp e) \<le> timestamp_key (timestamp l))
          \<and> field (fst (latest_co2_badge st)) ''message'' = Some (JStr (badge l))"
    by blast
next
  show "latest_co2_badge (ingest_all [] [record_A, record_B]) =
       (JDict [(''schemaVersion'', JNum (PyInt 1)), (''label'', JStr ''CO2''),
               (''message'', JStr ''Red''), (''color'', JStr ''red'')], 200)"
    by (simp add: ingest_all_def record_A_stored record_B_stored latest_A_B)
next
  show "latest_co2_badge (ingest_all [] [record_B, record_A]) =
       (JDict [(''schemaVersion'', JNum (PyInt 1)), (''label'', JStr ''CO2''),
               (''message'', JStr ''Red''), (''color'', JStr ''red'')], 200)"
    by (simp add: ingest_all_def record_A_stored record_B_stored latest_B_A)
qed

text \<open>
  In the sample store the row with the greatest timestamp is the first one inserted,
  with badge \<^verbatim>\<open>Green\<close>, and the one inserted last has badge \<^verbatim>\<open>Red\<close>: the message is
  \<^verbatim>\<open>Green\<close>.
\<close>

theorem latest_badge_by_timestamp_witness:
  "field (fst (latest_co2_badge sample_store)) ''message'' = Some (JStr ''Green'')
   \<and> badge (last sample_store) = ''Red''"
proof -
  let ?r1 = "sample_row 1 (1 / 10) ''Green'' 5"
  have ne: "sample_store \<noteq> []" by (simp add: sample_store_def)
  from latest_badge_by_timestamp [of sample_store] ne
  obtain l where l: "l \<in> set sample_store"
     "\<forall>e\<in>set sample_store. timestamp_key (timestamp e) \<le> timestamp_key (timestamp l)"
     "field (fst (latest_co2_badge sample_store)) ''message'' = Some (JStr (badge l))"
    by blast
  have "?r1 \<in> set sample_store" by (simp add: sample_store_def)
  with l(2) have le: "timestamp_key (timestamp ?r1) \<le> timestamp_key (timestamp l)"
    by blast
  from l(1) consider "l = ?r1" | "l = sample_row 2 (2 / 10) ''Blue'' 1"
    | "l = sample_row 3 (3 / 10) ''Red'' 3"
    by (auto simp: sample_store_def)
  then have "badge l = ''Green''"
  proof cases
    case 1
    then show ?thesis by (simp add: sample_row_def)
  next
    case 2
    with le show ?thesis by (simp add: sample_row_def january_def timestamp_key_def)
  next
    case 3
    with le show ?thesis by (simp add: sample_row_def january_def timestamp_key_def)
  qed
  with l(3) show ?thesis by (simp add: sample_store_def sample_row_def)
qed

subsection \<open>Rejected requests leave the store as it was\<close>

text \<open>
  C7. A request to \<^verbatim>\<open>POST /record\<close> whose payload has no \<^verbatim>\<open>timestamp\<close>, or whose
  \<^verbatim>\<open>timestamp\<close> is not a string that \<^verbatim>\<open>datetime.fromisoformat\<close> accepts (after
  \<^verbatim>\<open>Z\<close> is replaced), fails: the reply is an error with status 400 or 500, the store
  after the request is the store before it, and so \<^verbatim>\<open>GET /stats\<close> answers as before.
\<close>

theorem record_bad_timestamp_rejected:
  assumes "map_of kvs ''timestamp'' = None
           \<or> (\<exists>v. map_of kvs ''timestamp'' = Some v
                \<and> (\<forall>s. v = JStr s \<longrightarrow> fromisoformat (replace s CHR ''Z'' ''+00:00'') = None))"
  shows "\<exists>r code. record_handler st (Some (JDict kvs)) = (st, r, code)
           \<and> (r = No_data_provided \<and> code = 400 \<or> (\<exists>e. r = Failed e) \<and> code = 500)
           \<and> stats (fst (record_handler st (Some (JDict kvs)))) = stats st"
proof -
  have no: "\<forall>st' i code. record_handler st (Some (JDict kvs)) \<noteq> (st', Success i, code)"
  proof (intro allI notI)
    fix st' i code
    assume "record_handler st (Some (JDict kvs)) = (st', Success i, code)"
    then obtain s t where s: "dict_get kvs ''timestamp'' (JStr []) = JStr s"
      and p: "fromisoformat (replace s CHR ''Z'' ''+00:00'') = Some t"
      unfolding record_handler_Success_iff by auto
    from assms show False
    proof
      assume "map_of kvs ''timestamp'' = None"
      with s have "s = []" by (simp add: dict_get_def)
      with p show False by (simp add: fromisoformat_Nil)
    next
      assume "\<exists>v. map_of kvs ''timestamp'' = Some v
                \<and> (\<forall>s. v = JStr s \<longrightarrow> fromisoformat (replace s CHR ''Z'' ''+00:00'') = None)"
      with s p show False by (auto simp: dict_get_def)
    qed
  qed
  from record_handler_not_Success [OF no] obtain r code where
    r: "record_handler st (Some (JDict kvs)) = (st, r, code)"
       "r = No_data_provided \<and> code = 400 \<or> (\<exists>e. r = Failed e) \<and> code = 500"
    by blast
  then show ?thesis by simp
qed

text \<open>
  A payload without \<^verbatim>\<open>timestamp\<close> and one with the timestamp \<^verbatim>\<open>yesterday\<close> are both
  answered with status 500, and the sample store is unchanged.
\<close>

theorem record_bad_timestamp_rejected_witness:
  "record_handler sample_store (Some (JDict [(''repo'', JStr ''frontend-app''), (''co2'', JNum (PyFloat (1 / 10)))]))
     = (sample_store, Failed ValueError, 500)
   \<and> record_handler sample_store (Some (JDict [(''repo'', JStr ''frontend-app''), (''timestamp'', JStr ''yesterday'')]))
     = (sample_store, Failed ValueError, 500)"
proof -
  let ?a = "[(''repo'', JStr ''frontend-app''), (''co2'', JNum (PyFloat (1 / 10)))]"
  let ?b = "[(''repo'', JStr ''frontend-app''), (''timestamp'', JStr ''yesterday'')]"
  have ha: "map_of ?a ''timestamp'' = None" by simp
  have hb: "\<exists>v. map_of ?b ''timestamp'' = Some v
                \<and> (\<forall>s. v = JStr s \<longrightarrow> fromisoformat (replace s CHR ''Z'' ''+00:00'') = None)"
    using parse_garbage by simp
  have ea: "record_handler sample_store (Some (JDict ?a)) = (sample_store, Failed ValueError, 500)"
    using record_bad_timestamp_rejected [of ?a sample_store] ha
    by (simp add: record_handler_def new_emission_def dict_get_def parse_timestamp_def fromisoformat_Nil)
  have eb: "record_handler sample_store (Some (JDict ?b)) = (sample_store, Failed ValueError, 500)"
    using record_bad_timestamp_rejected [of ?b sample_store] hb
    by (simp add: record_handler_def new_emission_def dict_get_def parse_timestamp_def
          fromisoformat_def parse_isoformat_date_def)
  from ea eb show ?thesis by blast
qed

subsection \<open>No sign check on \<^verbatim>\<open>co2\<close> and \<^verbatim>\<open>duration\<close>\<close>

text \<open>
  The claim that ingestion never stores a negative \<^verbatim>\<open>co2\<close> or \<^verbatim>\<open>duration\<close> fails:
  the payload with \<^verbatim>\<open>co2 = -1.5\<close> and \<^verbatim>\<open>duration = -3\<close> is accepted with status 201 by
  the empty store, and the stored row has these two values.
\<close>

theorem record_negative_values_stored:
  "record_handler [] (Some (JDict negative_payload))
     = ([\<lparr>emission_id = 1, repo = [], owner = [], run_id = [], co2 = - (3 / 2),
          duration = - 3, machine_type = [], badge = [], timestamp = january 1\<rparr>],
        Success 1, 201)
   \<and> non_negative []
   \<and> \<not> non_negative (fst (record_handler [] (Some (JDict negative_payload))))"
proof -
  have "record_handler [] (Some (JDict negative_payload))
     = ([\<lparr>emission_id = 1, repo = [], owner = [], run_id = [], co2 = - (3 / 2),
          duration = - 3, machine_type = [], badge = [], timestamp = january 1\<rparr>],
        Success 1, 201)"
    by (simp add: handler_defs negative_payload_def parse_january_1 next_id_def)
  then show ?thesis by (simp add: non_negative_def)
qed

text \<open>
  C9, as amended. Ingestion applies no sign check. An accepted payload is stored with
  \<^verbatim>\<open>co2 = float(co2)\<close> and \<^verbatim>\<open>duration = int(duration)\<close>, the absent field read as 0,
  whatever the sign of these values. So every row of the store has \<^verbatim>\<open>co2 >= 0\<close> and
  \<^verbatim>\<open>duration >= 0\<close> after a request if this held before it and the payload's
  \<^verbatim>\<open>float(co2)\<close> and \<^verbatim>\<open>int(duration)\<close> are not negative.
\<close>

theorem record_stores_values_unchecked:
  "(\<forall>st' i code. record_handler st (Some (JDict kvs)) = (st', Success i, code) \<longrightarrow>
      (\<exists>e. st' = st @ [e]
         \<and> py_float (dict_get kvs ''co2'' (JNum (PyInt 0))) = Inr (co2 e)
         \<and> py_int (dict_get kvs ''duration'' (JNum (PyInt 0))) = Inr (duration e)))
   \<and> (non_negative st
        \<and> (\<forall>c. py_float (dict_get kvs ''co2'' (JNum (PyInt 0))) = Inr c \<longrightarrow> 0 \<le> c)
        \<and> (\<forall>d. py_int (dict_get kvs ''duration'' (JNum (PyInt 0))) = Inr d \<longrightarrow> 0 \<le> d)
      \<longrightarrow> non_negative (fst (record_handler st (Some (JDict kvs)))))"
proof (intro conjI allI impI)
  fix st' i code
  assume "record_handler st (Some (JDict kvs)) = (st', Success i, code)"
  from record_handler_SuccessD [OF this]
  show "\<exists>e. st' = st @ [e]
         \<and> py_float (dict_get kvs ''co2'' (JNum (PyInt 0))) = Inr (co2 e)
         \<and> py_int (dict_get kvs ''duration'' (JNum (PyInt 0))) = Inr (duration e)"
    by auto
next
  assume h: "non_negative st
        \<and> (\<forall>c. py_float (dict_get kvs ''co2'' (JNum (PyInt 0))) = Inr c \<longrightarrow> 0 \<le> c)
        \<and> (\<forall>d. py_int (dict_get kvs ''duration'' (JNum (PyInt 0))) = Inr d \<longrightarrow> 0 \<le> d)"
  show "non_negative (fst (record_handler st (Some (JDict kvs))))"
  proof (cases "\<exists>st' i code. record_handler st (Some (JDict kvs)) = (st', Success i, code)")
    case True
    then obtain st' i code where s: "record_handler st (Some (JDict kvs)) = (st', Success i, code)"
      by blast
    from record_handler_SuccessD [OF s] obtain e where "st' = st @ [e]"
         "py_float (dict_get kvs ''co2'' (JNum (PyInt 0))) = Inr (co2 e)"
         "py_int (dict_get kvs ''duration'' (JNum (PyInt 0))) = Inr (duration e)"
      by auto
    with h s show ?thesis by (simp add: non_negative_def)
  next
    case False
    then have "\<forall>st' i code. record_handler st (Some (JDict kvs)) \<noteq> (st', Success i, code)"
      by blast
    from record_handler_not_Success [OF this] h show ?thesis by auto
  qed
qed

text \<open>
  The full payload, with \<^verbatim>\<open>co2 = 0.1\<close> and \<^verbatim>\<open>duration = 60\<close>, keeps the sample store
  free of negative values.
\<close>

theorem record_stores_values_unchecked_witness:
  "non_negative (fst (record_handler sample_store (Some (JDict full_payload))))
   \<and> fst (record_handler sample_store (Some (JDict full_payload)))
       = sample_store @ [sample_row 4 (1 / 10) ''Green'' 5]"
proof -
  have c: "\<forall>c. py_float (dict_get full_payload ''co2'' (JNum (PyInt 0))) = Inr c \<longrightarrow> 0 \<le> c"
    by (simp add: full_payload_def dict_get_def)
  have d: "\<forall>d. py_int (dict_get full_payload ''duration'' (JNum (PyInt 0))) = Inr d \<longrightarrow> 0 \<le> d"
    by (simp add: full_payload_def dict_get_def)
  have n: "next_id sample_store = 4" by (simp add: next_id_def sample_defs)
  from record_stores_values_unchecked [of sample_store full_payload] non_negative_sample_store c d
  have "non_negative (fst (record_handler sample_store (Some (JDict full_payload))))"
    by blast
  then show ?thesis by (simp add: full_payload_stored n)
qed

subsection \<open>An ingested record is listed as it was supplied\<close>

text \<open>
  C1. When \<^verbatim>\<open>POST /record\<close> accepts a payload, the store is the former store with one
  new row at its end, whose key \<open>i\<close> no other row has, and \<^verbatim>\<open>GET /stats\<close> afterwards
  lists under \<^verbatim>\<open>emissions\<close> all stored rows, one entry for each, in the order of their
  insertion: the former entries followed by the entry of the new row. In that entry
  every field the caller supplied with a value of the field's type is the supplied
  value: the strings \<^verbatim>\<open>repo\<close>, \<^verbatim>\<open>owner\<close>, \<^verbatim>\<open>run_id\<close>, \<^verbatim>\<open>machine_type\<close> and \<^verbatim>\<open>badge\<close>
  verbatim, the number \<^verbatim>\<open>co2\<close> as the float of the same value, the integer
  \<^verbatim>\<open>duration\<close> verbatim, and the \<^verbatim>\<open>timestamp\<close> as the ISO-8601 rendering of the date and
  time that were parsed from it.
\<close>

theorem record_stats_round_trip:
  assumes "record_handler st (Some (JDict kvs)) = (st', Success i, code)"
  shows "\<exists>e. st' = st @ [e] \<and> emission_id e = i
      \<and> length (filter (\<lambda>x. emission_id x = i) st') = 1
      \<and> field (fst (stats st')) ''emissions'' = Some (JList (map emission_dict st'))
      \<and> map emission_dict st' = map emission_dict st @ [emission_dict e]
      \<and> (\<forall>v. map_of kvs ''repo'' = Some (JStr v) \<longrightarrow>
             field (emission_dict e) ''repo'' = Some (JStr v))
      \<and> (\<forall>v. map_of kvs ''owner'' = Some (JStr v) \<longrightarrow>
             field (emission_dict e) ''owner'' = Some (JStr v))
      \<and> (\<forall>v. map_of kvs ''run_id'' = Some (JStr v) \<longrightarrow>
             field (emission_dict e) ''run_id'' = Some (JStr v))
      \<and> (\<forall>c. map_of kvs ''co2'' = Some (JNum c) \<longrightarrow>
             field (emission_dict e) ''co2'' = Some (JNum (PyFloat (as_real c))))
      \<and> (\<forall>d. map_of kvs ''duration'' = Some (JNum (PyInt d)) \<longrightarrow>
             field (emission_dict e) ''duration'' = Some (JNum (PyInt d)))
      \<and> (\<forall>v. map_of kvs ''machine_type'' = Some (JStr v) \<longrightarrow>
             field (emission_dict e) ''machine_type'' = Some (JStr v))
      \<and> (\<forall>v. map_of kvs ''badge'' = Some (JStr v) \<longrightarrow>
             field (emission_dict e) ''badge'' = Some (JStr v))
      \<and> (\<forall>s dt tz. map_of kvs ''timestamp'' = Some (JStr s) \<longrightarrow>
             fromisoformat (replace s CHR ''Z'' ''+00:00'') = Some (dt, tz) \<longrightarrow>
             field (emission_dict e) ''timestamp'' = Some (JStr (isoformat dt)))"
proof -
  from record_handler_SuccessD [OF assms] obtain e s tz where
    h: "i = next_id st" "st' = st @ [e]" "emission_id e = next_id st"
       "py_float (dict_get kvs ''co2'' (JNum (PyInt 0))) = Inr (co2 e)"
       "py_int (dict_get kvs ''duration'' (JNum (PyInt 0))) = Inr (duration e)"
       "dict_get kvs ''timestamp'' (JStr []) = JStr s"
       "fromisoformat (replace s CHR ''Z'' ''+00:00'') = Some (timestamp e, tz)"
       "dict_get kvs ''repo'' (JStr []) = JStr (repo e)"
       "dict_get kvs ''owner'' (JStr []) = JStr (owner e)"
       "dict_get kvs ''run_id'' (JStr []) = JStr (run_id e)"
       "dict_get kvs ''machine_type'' (JStr []) = JStr (machine_type e)"
       "dict_get kvs ''badge'' (JStr []) = JStr (badge e)"
    by auto
  have once: "length (filter (\<lambda>x. emission_id x = i) st') = 1"
    using fresh_id_once [OF h(3)] h(1,2) by simp
  have em: "field (fst (stats st')) ''emissions'' = Some (JList (map emission_dict st'))"
    by (simp add: stats_def Let_def)
  have ap: "map emission_dict st' = map emission_dict st @ [emission_dict e]"
    using h(2) by simp
  have f1: "\<forall>v. map_of kvs ''repo'' = Some (JStr v) \<longrightarrow>
             field (emission_dict e) ''repo'' = Some (JStr v)"
    using h(8) by (auto simp: dict_get_def emission_dict_def)
  have f2: "\<forall>v. map_of kvs ''owner'' = Some (JStr v) \<longrightarrow>
             field (emission_dict e) ''owner'' = Some (JStr v)"
    using h(9) by (auto simp: dict_get_def emission_dict_def)
  have f3: "\<forall>v. map_of kvs ''run_id'' = Some (JStr v) \<longrightarrow>
             field (emission_dict e) ''run_id'' = Some (JStr v)"
    using h(10) by (auto simp: dict_get_def emission_dict_def)
  have f4: "\<forall>c. map_of kvs ''co2'' = Some (JNum c) \<longrightarrow>
             field (emission_dict e) ''co2'' = Some (JNum (PyFloat (as_real c)))"
    using h(4) by (auto simp: dict_get_def emission_dict_def)
  have f5: "\<forall>d. map_of kvs ''duration'' = Some (JNum (PyInt d)) \<longrightarrow>
             field (emission_dict e) ''duration'' = Some (JNum (PyInt d))"
    using h(5) by (auto simp: dict_get_def emission_dict_def)
  have f6: "\<forall>v. map_of kvs ''machine_type'' = Some (JStr v) \<longrightarrow>
             field (emission_dict e) ''machine_type'' = Some (JStr v)"
    using h(11) by (auto simp: dict_get_def emission_dict_def)
  have f7: "\<forall>v. map_of kvs ''badge'' = Some (JStr v) \<longrightarrow>
             field (emission_dict e) ''badge'' = Some (JStr v)"
    using h(12) by (auto simp: dict_get_def emission_dict_def)
  have f8: "\<forall>s dt tz. map_of kvs ''timestamp'' = Some (JStr s) \<longrightarrow>
             fromisoformat (replace s CHR ''Z'' ''+00:00'') = Some (dt, tz) \<longrightarrow>
             field (emission_dict e) ''timestamp'' = Some (JStr (isoformat dt))"
    using h(6,7) by (auto simp: dict_get_def emission_dict_def)
  from h(1,2,3) once em ap f1 f2 f3 f4 f5 f6 f7 f8 show ?thesis by blast
qed

text \<open>
  The full payload is accepted by the sample store under the key 4, and the entry
  listed for it has the supplied values; its timestamp \<^verbatim>\<open>2024-01-05T00:00:00Z\<close> is
  rendered as \<^verbatim>\<open>2024-01-05T00:00:00\<close>.
\<close>

theorem record_stats_round_trip_witness:
  "field (fst (stats (fst (record_handler sample_store (Some (JDict full_payload))))))
       ''emissions''
     = Some (JList (map emission_dict sample_store @
          [JDict [(''repo'', JStr ''frontend-app''), (''owner'', JStr ''carbon-cost-team''),
                  (''run_id'', JStr ''7''), (''co2'', JNum (PyFloat (1 / 10))),
                  (''duration'', JNum (PyInt 60)), (''machine_type'', JStr ''ubuntu-latest''),
                  (''badge'', JStr ''Green''), (''timestamp'', JStr ''2024-01-05T00:00:00'')]]))
   \<and> snd (record_handler sample_store (Some (JDict full_payload))) = (Success 4, 201)"
proof -
  let ?st' = "sample_store @ [sample_row (next_id sample_store) (1 / 10) ''Green'' 5]"
  have n: "next_id sample_store = 4" by (simp add: next_id_def sample_defs)
  have acc: "record_handler sample_store (Some (JDict full_payload))
               = (?st', Success (next_id sample_store), 201)"
    by (rule full_payload_stored)
  from record_stats_round_trip [OF acc] obtain e where
    e: "?st' = sample_store @ [e]"
       "field (fst (stats ?st')) ''emissions'' = Some (JList (map emission_dict ?st'))"
       "map emission_dict ?st' = map emission_dict sample_store @ [emission_dict e]"
    by (elim exE conjE) (rule that)
  from e(1) have "e = sample_row (next_id sample_store) (1 / 10) ''Green'' 5" by simp
  then have "emission_dict e =
          JDict [(''repo'', JStr ''frontend-app''), (''owner'', JStr ''carbon-cost-team''),
                  (''run_id'', JStr ''7''), (''co2'', JNum (PyFloat (1 / 10))),
                  (''duration'', JNum (PyInt 60)), (''machine_type'', JStr ''ubuntu-latest''),
                  (''badge'', JStr ''Green''), (''timestamp'', JStr ''2024-01-05T00:00:00'')]"
    by (simp add: emission_dict_def sample_row_def isoformat_january_5)
  with e(2,3) acc n show ?thesis by simp
qed

subsection \<open>Defaults of absent fields, and the designator \<^verbatim>\<open>Z\<close>\<close>

text \<open>
  C8. In the row stored for an accepted payload, an absent \<^verbatim>\<open>co2\<close> or \<^verbatim>\<open>duration\<close> is 0
  and an absent \<^verbatim>\<open>repo\<close>, \<^verbatim>\<open>owner\<close>, \<^verbatim>\<open>run_id\<close>, \<^verbatim>\<open>machine_type\<close> or \<^verbatim>\<open>badge\<close> is the
  empty string. A payload that holds nothing but a timestamp which parses is accepted,
  and stored with all these defaults. A timestamp \<open>b\<close> followed by \<^verbatim>\<open>Z\<close>, where \<open>b\<close>
  itself parses to the date and time \<open>dt\<close> without an offset, is read as \<open>dt\<close> at the
  offset zero from UTC; when \<open>b\<close> is a date alone, the result is \<open>dt\<close> without an
  offset.
\<close>

theorem record_defaults_and_utc:
  "(\<forall>st' i code. record_handler st (Some (JDict kvs)) = (st', Success i, code) \<longrightarrow>
      (\<exists>e. st' = st @ [e]
         \<and> (map_of kvs ''co2'' = None \<longrightarrow> co2 e = 0)
         \<and> (map_of kvs ''duration'' = None \<longrightarrow> duration e = 0)
         \<and> (map_of kvs ''repo'' = None \<longrightarrow> repo e = [])
         \<and> (map_of kvs ''owner'' = None \<longrightarrow> owner e = [])
         \<and> (map_of kvs ''run_id'' = None \<longrightarrow> run_id e = [])
         \<and> (map_of kvs ''machine_type'' = None \<longrightarrow> machine_type e = [])
         \<and> (map_of kvs ''badge'' = None \<longrightarrow> badge e = [])))
   \<and> (\<forall>dt tz. fromisoformat (replace s CHR ''Z'' ''+00:00'') = Some (dt, tz) \<longrightarrow>
        record_handler st (Some (JDict [(''timestamp'', JStr s)]))
          = (st @ [\<lparr>emission_id = next_id st, repo = [], owner = [], run_id = [], co2 = 0,
                     duration = 0, machine_type = [], badge = [], timestamp = dt\<rparr>],
             Success (next_id st), 201))
   \<and> (\<forall>dt. CHR ''Z'' \<notin> set b \<longrightarrow> fromisoformat b = Some (dt, None) \<longrightarrow>
        fromisoformat (replace (b @ ''Z'') CHR ''Z'' ''+00:00'')
          = Some (dt, if length b = 10 then None else Some 0))"
proof (intro conjI allI impI)
  fix st' i code
  assume "record_handler st (Some (JDict kvs)) = (st', Success i, code)"
  from record_handler_SuccessD [OF this] obtain e where
    h: "st' = st @ [e]"
       "py_float (dict_get kvs ''co2'' (JNum (PyInt 0))) = Inr (co2 e)"
       "py_int (dict_get kvs ''duration'' (JNum (PyInt 0))) = Inr (duration e)"
       "dict_get kvs ''repo'' (JStr []) = JStr (repo e)"
       "dict_get kvs ''owner'' (JStr []) = JStr (owner e)"
       "dict_get kvs ''run_id'' (JStr []) = JStr (run_id e)"
       "dict_get kvs ''machine_type'' (JStr []) = JStr (machine_type e)"
       "dict_get kvs ''badge'' (JStr []) = JStr (badge e)"
    by auto
  have "map_of kvs ''co2'' = None \<longrightarrow> co2 e = 0"
    using h(2) by (auto simp: dict_get_def)
  moreover have "map_of kvs ''duration'' = None \<longrightarrow> duration e = 0"
    using h(3) by (auto simp: dict_get_def)
  moreover have "map_of kvs ''repo'' = None \<longrightarrow> repo e = []"
    using h(4) by (auto simp: dict_get_def)
  moreover have "map_of kvs ''owner'' = None \<longrightarrow> owner e = []"
    using h(5) by (auto simp: dict_get_def)
  moreover have "map_of kvs ''run_id'' = None \<longrightarrow> run_id e = []"
    using h(6) by (auto simp: dict_get_def)
  moreover have "map_of kvs ''machine_type'' = None \<longrightarrow> machine_type e = []"
    using h(7) by (auto simp: dict_get_def)
  moreover have "map_of kvs ''badge'' = None \<longrightarrow> badge e = []"
    using h(8) by (auto simp: dict_get_def)
  ultimately have all: "st' = st @ [e]
         \<and> (map_of kvs ''co2'' = None \<longrightarrow> co2 e = 0)
         \<and> (map_of kvs ''duration'' = None \<longrightarrow> duration e = 0)
         \<and> (map_of kvs ''repo'' = None \<longrightarrow> repo e = [])
         \<and> (map_of kvs ''owner'' = None \<longrightarrow> owner e = [])
         \<and> (map_of kvs ''run_id'' = None \<longrightarrow> run_id e = [])
         \<and> (map_of kvs ''machine_type'' = None \<longrightarrow> machine_type e = [])
         \<and> (map_of kvs ''badge'' = None \<longrightarrow> badge e = [])"
    using h(1) by simp
  then show "\<exists>e. st' = st @ [e]
         \<and> (map_of kvs ''co2'' = None \<longrightarrow> co2 e = 0)
         \<and> (map_of kvs ''duration'' = None \<longrightarrow> duration e = 0)
         \<and> (map_of kvs ''repo'' = None \<longrightarrow> repo e = [])
         \<and> (map_of kvs ''owner'' = None \<longrightarrow> owner e = [])
         \<and> (map_of kvs ''run_id'' = None \<longrightarrow> run_id e = [])
         \<and> (map_of kvs ''machine_type'' = None \<longrightarrow> machine_type e = [])
         \<and> (map_of kvs ''badge'' = None \<longrightarrow> badge e = [])"
    by (rule exI)
next
  fix dt tz
  assume "fromisoformat (replace s CHR ''Z'' ''+00:00'') = Some (dt, tz)"
  then show "record_handler st (Some (JDict [(''timestamp'', JStr s)]))
          = (st @ [\<lparr>emission_id = next_id st, repo = [], owner = [], run_id = [], co2 = 0,
                     duration = 0, machine_type = [], badge = [], timestamp = dt\<rparr>],
             Success (next_id st), 201)"
    by (rule timestamp_only_stored)
next
  fix dt
  assume z: "CHR ''Z'' \<notin> set b" and p: "fromisoformat b = Some (dt, None)"
  have "replace (b @ ''Z'') CHR ''Z'' ''+00:00'' = b @ ''+00:00''"
    using replace_append_old [OF z] by simp
  with fromisoformat_append_utc [OF p]
  show "fromisoformat (replace (b @ ''Z'') CHR ''Z'' ''+00:00'')
          = Some (dt, if length b = 10 then None else Some 0)"
    by simp
qed

text \<open>
  The payload that holds only the timestamp \<^verbatim>\<open>2024-01-01T00:00:00Z\<close> is accepted by
  the sample store and stored with the defaults, and the timestamp is read as midnight
  of 1 January 2024 at the offset zero.
\<close>

theorem record_defaults_and_utc_witness:
  "record_handler sample_store (Some (JDict [(''timestamp'', JStr ''2024-01-01T00:00:00Z'')]))
     = (sample_store @ [\<lparr>emission_id = 4, repo = [], owner = [], run_id = [], co2 = 0,
                           duration = 0, machine_type = [], badge = [],
                           timestamp = january 1\<rparr>],
        Success 4, 201)
   \<and> fromisoformat (replace ''2024-01-01T00:00:00Z'' CHR ''Z'' ''+00:00'')
       = Some (january 1, Some 0)"
proof -
  let ?b = "''2024-01-01T00:00:00''"
  note T = record_defaults_and_utc
    [of sample_store "[]" "''2024-01-01T00:00:00Z''" ?b]
  have n: "next_id sample_store = 4" by (simp add: next_id_def sample_defs)
  have z: "CHR ''Z'' \<notin> set ?b" by simp
  have u: "fromisoformat (replace (?b @ ''Z'') CHR ''Z'' ''+00:00'')
             = Some (january 1, if length ?b = 10 then None else Some 0)"
    using T [THEN conjunct2, THEN conjunct2, rule_format, OF z parse_january_1_naive] .
  then have u': "fromisoformat (replace ''2024-01-01T00:00:00Z'' CHR ''Z'' ''+00:00'')
       = Some (january 1, Some 0)"
    by simp
  have a: "record_handler sample_store
             (Some (JDict [(''timestamp'', JStr ''2024-01-01T00:00:00Z'')]))
     = (sample_store @ [\<lparr>emission_id = next_id sample_store, repo = [], owner = [],
                           run_id = [], co2 = 0,
                           duration = 0, machine_type = [], badge = [],
                           timestamp = january 1\<rparr>],
        Success (next_id sample_store), 201)"
    using T [THEN conjunct2, THEN conjunct1, rule_format, OF u'] .
  from a u' show ?thesis unfolding n by (rule conjI)
qed

end
